theory Spec2Isabelle
  imports Main "HOL-Library.Word"
begin

text \<open>
  A model of the Express application with the session layer: registration, login and
  logout, the access guard, and the client-record routes that compose queries for the
  store. Two earlier revisions of the same routes are kept in the repository; they have
  no session middleware and register the client routes without a guard, and their
  listing, create, update and delete handlers are otherwise the ones modelled here.
\<close>

section \<open>JavaScript values\<close>

text \<open>
  A JavaScript string is a sequence of 16-bit code units. The ASCII literals of the
  source are written \<open>js ''...''\<close>; the Cyrillic messages are given by their code units.
\<close>

type_synonym jstring = "16 word list"

definition js :: "string \<Rightarrow> jstring" where
  "js s = map of_char s"

datatype jsval =
    JUndefined
  | JNull
  | JBool bool
  | JNum int
  | JStr jstring
  | JArr "jsval list"
  | JObj "(jstring \<times> jsval) list"

text \<open>
  Request parameters (\<open>req.query\<close>, \<open>req.body\<close>, \<open>req.params\<close>) are modelled as
  absent (\<open>undefined\<close>) or one string: \<open>jstring option\<close>. The array and object forms
  that the extended parsers build from bracketed or repeated keys are outside the model.
\<close>

definition param :: "jstring option \<Rightarrow> jsval" where
  "param p = (case p of None \<Rightarrow> JUndefined | Some s \<Rightarrow> JStr s)"

text \<open>Truthiness, as \<open>if (x)\<close>, \<open>!x\<close>, \<open>x && y\<close> and \<open>x || y\<close> read it.\<close>

fun truthy :: "jsval \<Rightarrow> bool" where
  "truthy JUndefined = False"
| "truthy JNull = False"
| "truthy (JBool b) = b"
| "truthy (JNum n) = (n \<noteq> 0)"
| "truthy (JStr s) = (s \<noteq> [])"
| "truthy (JArr xs) = True"
| "truthy (JObj kvs) = True"

text \<open>\<open>x || null\<close>\<close>

definition or_null :: "jsval \<Rightarrow> jsval" where
  "or_null x = (if truthy x then x else JNull)"

text \<open>Property read \<open>o.k\<close> on a row object: \<open>undefined\<close> when the key is missing.\<close>

definition get_prop :: "(jstring \<times> jsval) list \<Rightarrow> jstring \<Rightarrow> jsval" where
  "get_prop obj k = (case map_of obj k of None \<Rightarrow> JUndefined | Some v \<Rightarrow> v)"

text \<open>
  \<open>String.prototype.trim\<close> removes the WhiteSpace and LineTerminator code points of
  ECMAScript from both ends; all of them are single code units.
\<close>

definition is_js_whitespace :: "16 word \<Rightarrow> bool" where
  "is_js_whitespace c \<longleftrightarrow>
     c = 0x0009 \<or> c = 0x000A \<or> c = 0x000B \<or> c = 0x000C \<or> c = 0x000D \<or> c = 0x0020 \<or>
     c = 0x00A0 \<or> c = 0x1680 \<or> (0x2000 \<le> c \<and> c \<le> 0x200A) \<or> c = 0x2028 \<or> c = 0x2029 \<or>
     c = 0x202F \<or> c = 0x205F \<or> c = 0x3000 \<or> c = 0xFEFF"

definition trim :: "jstring \<Rightarrow> jstring" where
  "trim s = rev (dropWhile is_js_whitespace (rev (dropWhile is_js_whitespace s)))"

text \<open>A template literal prints an absent parameter as the text \<open>undefined\<close>.\<close>

definition template :: "jstring option \<Rightarrow> jstring" where
  "template p = (case p of None \<Rightarrow> js ''undefined'' | Some s \<Rightarrow> s)"

section \<open>The query builder of the persistence collaborator\<close>

text \<open>
  The store client is external. A query is the record of the builder calls chained on
  \<open>supabase.from(table).select(columns)\<close>, in call order.
\<close>

datatype filter =
    Ilike jstring jstring
  | Eq jstring jsval
  | Or jstring

record query =
  q_table :: jstring
  q_columns :: jstring
  q_filters :: "filter list"
  q_order :: "(jstring \<times> bool) list"
  q_limit :: "nat option"

definition select_from :: "jstring \<Rightarrow> jstring \<Rightarrow> query" where
  "select_from t cols =
     \<lparr>q_table = t, q_columns = cols, q_filters = [], q_order = [], q_limit = None\<rparr>"

definition ilike :: "jstring \<Rightarrow> jstring \<Rightarrow> query \<Rightarrow> query" where
  "ilike col pat q = q\<lparr>q_filters := q_filters q @ [Ilike col pat]\<rparr>"

definition eq_col :: "jstring \<Rightarrow> jsval \<Rightarrow> query \<Rightarrow> query" where
  "eq_col col v q = q\<lparr>q_filters := q_filters q @ [Eq col v]\<rparr>"

definition or_filter :: "jstring \<Rightarrow> query \<Rightarrow> query" where
  "or_filter fs q = q\<lparr>q_filters := q_filters q @ [Or fs]\<rparr>"

text \<open>
  \<open>.order(column, { ascending })\<close>; the options argument may be omitted, and the
  client's default for \<open>ascending\<close> is \<open>true\<close>.
\<close>

definition order_by :: "jstring \<Rightarrow> bool option \<Rightarrow> query \<Rightarrow> query" where
  "order_by col ascending q =
     q\<lparr>q_order := q_order q @ [(col, case ascending of None \<Rightarrow> True | Some a \<Rightarrow> a)]\<rparr>"

definition limit_rows :: "nat \<Rightarrow> query \<Rightarrow> query" where
  "limit_rows n q = q\<lparr>q_limit := Some n\<rparr>"

section \<open>The listing query\<close>

record list_params =
  search :: "jstring option"
  status :: "jstring option"
  phone :: "jstring option"
  sort_by :: "jstring option"
  sort_order :: "jstring option"

text \<open>The column list of the listing: every client column and the joined status name.\<close>

definition clients_columns :: jstring where
  "clients_columns =
     [0x0A] @ js ''      *,'' @ [0x0A] @ js ''      client_status:status_id (name)'' @
     [0x0A] @ js ''    ''"

text \<open>
  The query that \<open>GET /clients\<close> composes from \<open>req.query\<close>. A parameter passes
  \<open>if (x && ...)\<close> and \<open>if (x)\<close> when it is present and not the empty string.
\<close>

definition list_query :: "list_params \<Rightarrow> query" where
  "list_query p =
     (let query = select_from (js ''clients'') clients_columns;
          query = (case search p of
                     Some s \<Rightarrow>
                       if s \<noteq> [] \<and> trim s \<noteq> []
                       then ilike (js ''full_name'') (js ''%'' @ trim s @ js ''%'') query
                       else query
                   | None \<Rightarrow> query);
          query = (case status p of
                     Some st \<Rightarrow>
                       if st \<noteq> [] \<and> st \<noteq> js ''all''
                       then eq_col (js ''status_id'') (JStr st) query
                       else query
                   | None \<Rightarrow> query);
          query = (case phone p of
                     Some ph \<Rightarrow>
                       if ph \<noteq> [] \<and> trim ph \<noteq> []
                       then ilike (js ''phone_number'') (js ''%'' @ trim ph @ js ''%'') query
                       else query
                   | None \<Rightarrow> query)
      in case sort_by p of
           Some key \<Rightarrow>
             if key \<noteq> []
             then (let ord = (if sort_order p = Some (js ''desc'') then False else True)
                   in if key = js ''status''
                      then order_by (js ''client_status(name)'') (Some ord) query
                      else order_by key (Some ord) query)
             else order_by (js ''id'') None query
         | None \<Rightarrow> order_by (js ''id'') None query)"

section \<open>Collaborators, effects and outcomes\<close>

datatype jserr = JsError (message: jstring)

type_synonym row = "(jstring \<times> jsval) list"

datatype mutation =
    Insert jstring "row list"
  | Update jstring row "filter list"
  | Delete jstring "filter list"

text \<open>
  Everything outside the program is a parameter: the store and the password hashing
  library act on a world \<open>'w\<close> of their own. An awaited store call resolves to
  \<open>{ data, error }\<close>: rows or \<open>null\<close> for a select, one row or \<open>null\<close> for
  \<open>.single()\<close>; of a mutation the handlers read the error only. A hashing call
  resolves or rejects.
\<close>

record 'w env =
  db_select :: "query \<Rightarrow> 'w \<Rightarrow> (row list option \<times> jserr option) \<times> 'w"
  db_single :: "query \<Rightarrow> 'w \<Rightarrow> (row option \<times> jserr option) \<times> 'w"
  db_mutate :: "mutation \<Rightarrow> 'w \<Rightarrow> jserr option \<times> 'w"
  bcrypt_hash :: "jsval \<Rightarrow> nat \<Rightarrow> 'w \<Rightarrow> (jserr + jstring) \<times> 'w"
  bcrypt_compare :: "jsval \<Rightarrow> jsval \<Rightarrow> 'w \<Rightarrow> (jserr + bool) \<times> 'w"

text \<open>What a handler does to the outside, in order.\<close>

datatype event =
    DbSelect query
  | DbSingle query
  | DbMutate mutation
  | BcryptHash jsval nat
  | BcryptCompare jsval jsval
  | ConsoleError jserr

text \<open>\<open>res.redirect(url)\<close>, \<open>res.status(code).send(body)\<close> (200 when no status is set),
  \<open>res.render(view, locals)\<close>.\<close>

datatype response =
    Redirect jstring
  | Send nat jstring
  | Render jstring row

text \<open>\<open>req.session\<close>: the handlers read and write its \<open>user\<close> property only.\<close>

record session =
  sess_user :: jsval

definition fresh_session :: session where
  "fresh_session = \<lparr>sess_user = JUndefined\<rparr>"

record 'w outcome =
  out_response :: response
  out_session :: session
  out_world :: 'w
  out_trace :: "event list"

definition rows_val :: "row list option \<Rightarrow> jsval" where
  "rows_val d = (case d of None \<Rightarrow> JNull | Some rs \<Rightarrow> JArr (map JObj rs))"

definition row_val :: "row option \<Rightarrow> jsval" where
  "row_val d = (case d of None \<Rightarrow> JNull | Some r \<Rightarrow> JObj r)"

section \<open>The access guard\<close>

datatype guard_result = Responded response | Next

definition requireAuth :: "session \<Rightarrow> guard_result" where
  "requireAuth s =
     (if \<not> truthy (sess_user s) then Responded (Redirect (js ''/login'')) else Next)"

text \<open>A route registered as \<open>app.METHOD(path, guard, handler)\<close>.\<close>

definition guarded ::
  "(session \<Rightarrow> guard_result) \<Rightarrow> (session \<Rightarrow> 'w \<Rightarrow> 'w outcome) \<Rightarrow> session \<Rightarrow> 'w \<Rightarrow> 'w outcome"
where
  "guarded guard handler s w =
     (case guard s of
        Responded r \<Rightarrow> \<lparr>out_response = r, out_session = s, out_world = w, out_trace = []\<rparr>
      | Next \<Rightarrow> handler s w)"

section \<open>Client records\<close>

definition statuses_query :: query where
  "statuses_query = order_by (js ''id'') None (select_from (js ''client_status'') (js ''*''))"

text \<open>\<open>GET /clients\<close>\<close>

definition clients_index :: "'w env \<Rightarrow> list_params \<Rightarrow> session \<Rightarrow> 'w \<Rightarrow> 'w outcome" where
  "clients_index E p s w =
     (let query = list_query p;
          ((clients, error), w1) = db_select E query w
      in case error of
           Some e \<Rightarrow>
             \<lparr>out_response = Send 200 (message e), out_session = s, out_world = w1,
              out_trace = [DbSelect query]\<rparr>
         | None \<Rightarrow>
             (let ((statuses, statusError), w2) = db_select E statuses_query w1
              in case statusError of
                   Some e \<Rightarrow>
                     \<lparr>out_response = Send 200 (message e), out_session = s, out_world = w2,
                      out_trace = [DbSelect query, DbSelect statuses_query]\<rparr>
                 | None \<Rightarrow>
                     \<lparr>out_response =
                        Render (js ''clients/index'')
                          [(js ''clients'', rows_val clients),
                           (js ''statuses'', rows_val statuses),
                           (js ''user'', or_null (sess_user s)),
                           (js ''filters'',
                            JObj [(js ''search'', param (search p)),
                                  (js ''status'', param (status p)),
                                  (js ''phone'', param (phone p)),
                                  (js ''sort_by'', param (sort_by p)),
                                  (js ''sort_order'', param (sort_order p))])],
                      out_session = s, out_world = w2,
                      out_trace = [DbSelect query, DbSelect statuses_query]\<rparr>))"

text \<open>\<open>GET /clients/new\<close>\<close>

definition clients_new :: "'w env \<Rightarrow> session \<Rightarrow> 'w \<Rightarrow> 'w outcome" where
  "clients_new E s w =
     (let ((statuses, error), w1) = db_select E statuses_query w
      in case error of
           Some e \<Rightarrow>
             \<lparr>out_response = Send 200 (message e), out_session = s, out_world = w1,
              out_trace = [DbSelect statuses_query]\<rparr>
         | None \<Rightarrow>
             \<lparr>out_response =
                Render (js ''clients/new'')
                  [(js ''statuses'', rows_val statuses), (js ''user'', or_null (sess_user s))],
              out_session = s, out_world = w1, out_trace = [DbSelect statuses_query]\<rparr>)"

record client_form =
  full_name :: "jstring option"
  phone_number :: "jstring option"
  status_id :: "jstring option"

text \<open>The object \<open>{ full_name, phone_number, status_id: status_id || null }\<close>.\<close>

definition client_row :: "client_form \<Rightarrow> row" where
  "client_row f =
     [(js ''full_name'', param (full_name f)),
      (js ''phone_number'', param (phone_number f)),
      (js ''status_id'', or_null (param (status_id f)))]"

text \<open>\<open>POST /clients\<close>\<close>

definition clients_create :: "'w env \<Rightarrow> client_form \<Rightarrow> session \<Rightarrow> 'w \<Rightarrow> 'w outcome" where
  "clients_create E f s w =
     (let m = Insert (js ''clients'') [client_row f];
          (error, w1) = db_mutate E m w
      in case error of
           Some e \<Rightarrow>
             \<lparr>out_response = Send 200 (message e), out_session = s, out_world = w1,
              out_trace = [DbMutate m]\<rparr>
         | None \<Rightarrow>
             \<lparr>out_response = Redirect (js ''/clients''), out_session = s, out_world = w1,
              out_trace = [DbMutate m]\<rparr>)"

text \<open>\<open>GET /clients/:id/edit\<close>\<close>

definition clients_edit :: "'w env \<Rightarrow> jstring \<Rightarrow> session \<Rightarrow> 'w \<Rightarrow> 'w outcome" where
  "clients_edit E ident s w =
     (let q = eq_col (js ''id'') (JStr ident) (select_from (js ''clients'') (js ''*''));
          ((client, clientError), w1) = db_single E q w
      in case clientError of
           Some e \<Rightarrow>
             \<lparr>out_response = Send 200 (message e), out_session = s, out_world = w1,
              out_trace = [DbSingle q]\<rparr>
         | None \<Rightarrow>
             (let ((statuses, statusError), w2) = db_select E statuses_query w1
              in case statusError of
                   Some e \<Rightarrow>
                     \<lparr>out_response = Send 200 (message e), out_session = s, out_world = w2,
                      out_trace = [DbSingle q, DbSelect statuses_query]\<rparr>
                 | None \<Rightarrow>
                     \<lparr>out_response =
                        Render (js ''clients/edit'')
                          [(js ''client'', row_val client),
                           (js ''statuses'', rows_val statuses),
                           (js ''user'', or_null (sess_user s))],
                      out_session = s, out_world = w2,
                      out_trace = [DbSingle q, DbSelect statuses_query]\<rparr>))"

text \<open>\<open>PUT /clients/:id\<close>\<close>

definition clients_update ::
  "'w env \<Rightarrow> jstring \<Rightarrow> client_form \<Rightarrow> session \<Rightarrow> 'w \<Rightarrow> 'w outcome"
where
  "clients_update E ident f s w =
     (let m = Update (js ''clients'') (client_row f) [Eq (js ''id'') (JStr ident)];
          (error, w1) = db_mutate E m w
      in case error of
           Some e \<Rightarrow>
             \<lparr>out_response = Send 200 (message e), out_session = s, out_world = w1,
              out_trace = [DbMutate m]\<rparr>
         | None \<Rightarrow>
             \<lparr>out_response = Redirect (js ''/clients''), out_session = s, out_world = w1,
              out_trace = [DbMutate m]\<rparr>)"

text \<open>\<open>DELETE /clients/:id\<close>\<close>

definition clients_delete :: "'w env \<Rightarrow> jstring \<Rightarrow> session \<Rightarrow> 'w \<Rightarrow> 'w outcome" where
  "clients_delete E ident s w =
     (let m = Delete (js ''clients'') [Eq (js ''id'') (JStr ident)];
          (error, w1) = db_mutate E m w
      in case error of
           Some e \<Rightarrow>
             \<lparr>out_response = Send 200 (message e), out_session = s, out_world = w1,
              out_trace = [DbMutate m]\<rparr>
         | None \<Rightarrow>
             \<lparr>out_response = Redirect (js ''/clients''), out_session = s, out_world = w1,
              out_trace = [DbMutate m]\<rparr>)"

section \<open>Registration, login and logout\<close>

record user_form =
  username :: "jstring option"
  email :: "jstring option"
  password :: "jstring option"

definition msg_user_exists :: jstring where
  "msg_user_exists =
     [0x41F, 0x43E, 0x43B, 0x44C, 0x437, 0x43E, 0x432, 0x430, 0x442, 0x435, 0x43B, 0x44C, 0x20,
      0x441, 0x20, 0x442, 0x430, 0x43A, 0x438, 0x43C, 0x20, 0x65, 0x6D, 0x61, 0x69, 0x6C, 0x20,
      0x438, 0x43B, 0x438, 0x20, 0x438, 0x43C, 0x435, 0x43D, 0x435, 0x43C, 0x20, 0x443, 0x436,
      0x435, 0x20, 0x441, 0x443, 0x449, 0x435, 0x441, 0x442, 0x432, 0x443, 0x435, 0x442, 0x2E]"

definition msg_register_failed :: jstring where
  "msg_register_failed =
     [0x41E, 0x448, 0x438, 0x431, 0x43A, 0x430, 0x20, 0x43F, 0x440, 0x438, 0x20, 0x440, 0x435,
      0x433, 0x438, 0x441, 0x442, 0x440, 0x430, 0x446, 0x438, 0x438, 0x2E]"

definition msg_user_not_found :: jstring where
  "msg_user_not_found =
     [0x41F, 0x43E, 0x43B, 0x44C, 0x437, 0x43E, 0x432, 0x430, 0x442, 0x435, 0x43B, 0x44C, 0x20,
      0x43D, 0x435, 0x20, 0x43D, 0x430, 0x439, 0x434, 0x435, 0x43D, 0x2E]"

definition msg_wrong_password :: jstring where
  "msg_wrong_password =
     [0x41D, 0x435, 0x432, 0x435, 0x440, 0x43D, 0x44B, 0x439, 0x20, 0x43F, 0x430, 0x440, 0x43E,
      0x43B, 0x44C, 0x2E]"

definition msg_login_failed :: jstring where
  "msg_login_failed =
     [0x41E, 0x448, 0x438, 0x431, 0x43A, 0x430, 0x20, 0x43F, 0x440, 0x438, 0x20, 0x432, 0x445,
      0x43E, 0x434, 0x435, 0x2E]"

text \<open>The duplicate lookup of \<open>POST /register\<close>: one select with one \<open>or\<close> filter.\<close>

definition existing_user_query :: "user_form \<Rightarrow> query" where
  "existing_user_query f =
     or_filter (js ''email.eq.'' @ template (email f) @ js '',username.eq.'' @ template (username f))
       (select_from (js ''users'') (js ''*''))"

text \<open>The object \<open>{ username, email, password_hash }\<close>.\<close>

definition user_row :: "user_form \<Rightarrow> jstring \<Rightarrow> row" where
  "user_row f password_hash =
     [(js ''username'', param (username f)),
      (js ''email'', param (email f)),
      (js ''password_hash'', JStr password_hash)]"

text \<open>
  \<open>POST /register\<close>. Of the lookup's reply only \<open>data\<close> is bound. A rejected hashing
  call and a failed insert both reach the \<open>catch\<close> block.
\<close>

definition post_register :: "'w env \<Rightarrow> user_form \<Rightarrow> session \<Rightarrow> 'w \<Rightarrow> 'w outcome" where
  "post_register E f s w =
     (let q = existing_user_query f;
          ((existingUser, unread), w1) = db_select E q w
      in if (case existingUser of None \<Rightarrow> False | Some rs \<Rightarrow> length rs > 0)
         then \<lparr>out_response = Send 400 msg_user_exists, out_session = s, out_world = w1,
               out_trace = [DbSelect q]\<rparr>
         else (case bcrypt_hash E (param (password f)) 10 w1 of
                 (Inl err, w2) \<Rightarrow>
                   \<lparr>out_response = Send 500 msg_register_failed, out_session = s, out_world = w2,
                    out_trace = [DbSelect q, BcryptHash (param (password f)) 10, ConsoleError err]\<rparr>
               | (Inr password_hash, w2) \<Rightarrow>
                   (let m = Insert (js ''users'') [user_row f password_hash];
                        (error, w3) = db_mutate E m w2
                    in case error of
                         Some e \<Rightarrow>
                           \<lparr>out_response = Send 500 msg_register_failed, out_session = s,
                            out_world = w3,
                            out_trace = [DbSelect q, BcryptHash (param (password f)) 10, DbMutate m,
                                         ConsoleError e]\<rparr>
                       | None \<Rightarrow>
                           \<lparr>out_response = Redirect (js ''/login''), out_session = s,
                            out_world = w3,
                            out_trace = [DbSelect q, BcryptHash (param (password f)) 10,
                                         DbMutate m]\<rparr>)))"

definition login_query :: "user_form \<Rightarrow> query" where
  "login_query f =
     limit_rows 1 (eq_col (js ''email'') (param (email f)) (select_from (js ''users'') (js ''*'')))"

text \<open>The object \<open>{ id: user.id, username: user.username, email: user.email }\<close>.\<close>

definition session_user :: "row \<Rightarrow> jsval" where
  "session_user user =
     JObj [(js ''id'', get_prop user (js ''id'')),
           (js ''username'', get_prop user (js ''username'')),
           (js ''email'', get_prop user (js ''email''))]"

text \<open>\<open>POST /login\<close>; it reads \<open>email\<close> and \<open>password\<close> of the body.\<close>

definition post_login :: "'w env \<Rightarrow> user_form \<Rightarrow> session \<Rightarrow> 'w \<Rightarrow> 'w outcome" where
  "post_login E f s w =
     (let q = login_query f;
          ((users, error), w1) = db_select E q w
      in case error of
           Some e \<Rightarrow>
             \<lparr>out_response = Send 500 msg_login_failed, out_session = s, out_world = w1,
              out_trace = [DbSelect q, ConsoleError e]\<rparr>
         | None \<Rightarrow>
             (case users of
                None \<Rightarrow>
                  \<lparr>out_response = Send 400 msg_user_not_found, out_session = s, out_world = w1,
                   out_trace = [DbSelect q]\<rparr>
              | Some [] \<Rightarrow>
                  \<lparr>out_response = Send 400 msg_user_not_found, out_session = s, out_world = w1,
                   out_trace = [DbSelect q]\<rparr>
              | Some (user # others) \<Rightarrow>
                  (let c = BcryptCompare (param (password f)) (get_prop user (js ''password_hash''))
                   in case bcrypt_compare E (param (password f))
                             (get_prop user (js ''password_hash'')) w1 of
                        (Inl err, w2) \<Rightarrow>
                          \<lparr>out_response = Send 500 msg_login_failed, out_session = s,
                           out_world = w2, out_trace = [DbSelect q, c, ConsoleError err]\<rparr>
                      | (Inr validPassword, w2) \<Rightarrow>
                          if \<not> validPassword
                          then \<lparr>out_response = Send 401 msg_wrong_password, out_session = s,
                                out_world = w2, out_trace = [DbSelect q, c]\<rparr>
                          else \<lparr>out_response = Redirect (js ''/''),
                                out_session = s\<lparr>sess_user := session_user user\<rparr>,
                                out_world = w2, out_trace = [DbSelect q, c]\<rparr>)))"

text \<open>\<open>GET /logout\<close>: the session is destroyed; the next request starts a new one.\<close>

definition get_logout :: "session \<Rightarrow> 'w \<Rightarrow> 'w outcome" where
  "get_logout s w =
     \<lparr>out_response = Redirect (js ''/''), out_session = fresh_session, out_world = w,
      out_trace = []\<rparr>"

text \<open>\<open>GET /\<close>, \<open>GET /register\<close>, \<open>GET /login\<close>: a view with \<open>{ user: req.session.user || null }\<close>.\<close>

definition page :: "jstring \<Rightarrow> session \<Rightarrow> 'w \<Rightarrow> 'w outcome" where
  "page view s w =
     \<lparr>out_response = Render view [(js ''user'', or_null (sess_user s))], out_session = s,
      out_world = w, out_trace = []\<rparr>"

section \<open>The application\<close>

datatype request =
    GetRoot
  | GetRegister
  | PostRegister user_form
  | GetLogin
  | PostLogin user_form
  | GetLogout
  | GetClients list_params
  | GetClientsNew
  | PostClients client_form
  | GetClientEdit jstring
  | PutClient jstring client_form
  | DeleteClient jstring

text \<open>The route table: each route with the middleware it is registered with.\<close>

fun app :: "'w env \<Rightarrow> request \<Rightarrow> session \<Rightarrow> 'w \<Rightarrow> 'w outcome" where
  "app E GetRoot = page (js ''index'')"
| "app E GetRegister = page (js ''register'')"
| "app E (PostRegister f) = post_register E f"
| "app E GetLogin = page (js ''login'')"
| "app E (PostLogin f) = post_login E f"
| "app E GetLogout = get_logout"
| "app E (GetClients p) = guarded requireAuth (clients_index E p)"
| "app E GetClientsNew = guarded requireAuth (clients_new E)"
| "app E (PostClients f) = guarded requireAuth (clients_create E f)"
| "app E (GetClientEdit ident) = guarded requireAuth (clients_edit E ident)"
| "app E (PutClient ident f) = guarded requireAuth (clients_update E ident f)"
| "app E (DeleteClient ident) = guarded requireAuth (clients_delete E ident)"

text \<open>
  The session states a client can reach: a new session, then any requests, against any
  state of the outside world.
\<close>

inductive reachable :: "'w env \<Rightarrow> session \<Rightarrow> bool" for E :: "'w env" where
  reachable_fresh: "reachable E fresh_session"
| reachable_step: "reachable E s \<Longrightarrow> reachable E (out_session (app E req s w))"

section \<open>Observations\<close>

text \<open>The locals of a rendered view; none for any other response.\<close>

fun render_locals :: "response \<Rightarrow> row" where
  "render_locals (Render view locals) = locals"
| "render_locals r = []"


text \<open>
  The listing page without its \<open>filters\<close> local, which echoes \<open>req.query\<close> back
  into the form; what is left are the records read from the store.
\<close>

fun without_filters :: "response \<Rightarrow> response" where
  "without_filters (Render view locals) =
     Render view (filter (\<lambda>kv. fst kv \<noteq> js ''filters'') locals)"
| "without_filters r = r"

text \<open>The property names of an object; no names for any other value.\<close>

fun object_keys :: "jsval \<Rightarrow> jstring list" where
  "object_keys (JObj kvs) = map fst kvs"
| "object_keys v = []"

text \<open>The store requests among the effects of a handler.\<close>

fun is_db_event :: "event \<Rightarrow> bool" where
  "is_db_event (DbSelect q) = True"
| "is_db_event (DbSingle q) = True"
| "is_db_event (DbMutate m) = True"
| "is_db_event ev = False"

fun is_insert :: "event \<Rightarrow> bool" where
  "is_insert (DbMutate (Insert t rs)) = True"
| "is_insert ev = False"

section \<open>Example collaborators\<close>

text \<open>
  Collaborators whose replies depend on the request only; their world counts the calls
  made so far.
\<close>

definition stub_env ::
  "(query \<Rightarrow> row list option \<times> jserr option) \<Rightarrow> (query \<Rightarrow> row option \<times> jserr option) \<Rightarrow>
   (mutation \<Rightarrow> jserr option) \<Rightarrow> (jsval \<Rightarrow> nat \<Rightarrow> jserr + jstring) \<Rightarrow>
   (jsval \<Rightarrow> jsval \<Rightarrow> jserr + bool) \<Rightarrow> nat env"
where
  "stub_env sel sing mut hash cmp =
     \<lparr>db_select = (\<lambda>q w. (sel q, Suc w)),
      db_single = (\<lambda>q w. (sing q, Suc w)),
      db_mutate = (\<lambda>m w. (mut m, Suc w)),
      bcrypt_hash = (\<lambda>p n w. (hash p n, Suc w)),
      bcrypt_compare = (\<lambda>p h w. (cmp p h, Suc w))\<rparr>"

definition ann_row :: row where
  "ann_row =
     [(js ''id'', JNum 7), (js ''username'', JStr (js ''ann'')),
      (js ''email'', JStr (js ''ann@example.org'')),
      (js ''password_hash'', JStr (js ''$2b$10$abcdefghijklmnopqrstuv''))]"

definition ann_form :: user_form where
  "ann_form =
     \<lparr>username = Some (js ''ann''), email = Some (js ''ann@example.org''),
      password = Some (js ''secret'')\<rparr>"

definition ann_session :: session where
  "ann_session = \<lparr>sess_user = session_user ann_row\<rparr>"

definition timeout_error :: jserr where
  "timeout_error = JsError (js ''upstream request timeout'')"

text \<open>A store that holds Ann's account and accepts every write; a hashing library
  that verifies no password.\<close>

definition ann_env :: "nat env" where
  "ann_env =
     stub_env (\<lambda>q. (Some [ann_row], None)) (\<lambda>q. (None, None)) (\<lambda>m. None)
       (\<lambda>p n. Inr (js ''$2b$10$zyxwvutsrqponmlkjihgfe'')) (\<lambda>p h. Inr False)"

text \<open>The same store with a hashing library that verifies every password.\<close>

definition ann_env_valid :: "nat env" where
  "ann_env_valid =
     stub_env (\<lambda>q. (Some [ann_row], None)) (\<lambda>q. (None, None)) (\<lambda>m. None)
       (\<lambda>p n. Inr (js ''$2b$10$zyxwvutsrqponmlkjihgfe'')) (\<lambda>p h. Inr True)"

text \<open>A store without rows that accepts every write.\<close>

definition empty_env :: "nat env" where
  "empty_env =
     stub_env (\<lambda>q. (Some [], None)) (\<lambda>q. (None, None)) (\<lambda>m. None)
       (\<lambda>p n. Inr (js ''$2b$10$zyxwvutsrqponmlkjihgfe'')) (\<lambda>p h. Inr False)"

text \<open>A store whose every read fails and that accepts every write.\<close>

definition failing_reads_env :: "nat env" where
  "failing_reads_env =
     stub_env (\<lambda>q. (None, Some timeout_error)) (\<lambda>q. (None, Some timeout_error)) (\<lambda>m. None)
       (\<lambda>p n. Inr (js ''$2b$10$zyxwvutsrqponmlkjihgfe'')) (\<lambda>p h. Inr False)"

text \<open>A store without rows that refuses every write.\<close>

definition refusing_env :: "nat env" where
  "refusing_env =
     stub_env (\<lambda>q. (Some [], None)) (\<lambda>q. (None, None)) (\<lambda>m. Some timeout_error)
       (\<lambda>p n. Inr (js ''$2b$10$zyxwvutsrqponmlkjihgfe'')) (\<lambda>p h. Inr False)"

text \<open>
  A store of one table: the world is the list of its rows. An insert appends its rows;
  every read times out.
\<close>

definition appending_env :: "row list env" where
  "appending_env =
     \<lparr>db_select = (\<lambda>q users. ((None, Some timeout_error), users)),
      db_single = (\<lambda>q users. ((None, Some timeout_error), users)),
      db_mutate = (\<lambda>m users. case m of Insert t rs \<Rightarrow> (None, users @ rs) | _ \<Rightarrow> (None, users)),
      bcrypt_hash = (\<lambda>p n users. (Inr (js ''$2b$10$zyxwvutsrqponmlkjihgfe''), users)),
      bcrypt_compare = (\<lambda>p h users. (Inr False, users))\<rparr>"

definition no_params :: list_params where
  "no_params = \<lparr>search = None, status = None, phone = None, sort_by = None, sort_order = None\<rparr>"

definition jane_form :: client_form where
  "jane_form =
     \<lparr>full_name = Some (js ''Jane Doe''), phone_number = Some (js ''555-1000''),
      status_id = None\<rparr>"

section \<open>The access guard on the client routes\<close>

text \<open>
  C1. The six client-record routes (list, new-form, create, edit-form, update, delete)
  are registered behind \<open>requireAuth\<close>. When the session holds no user (its \<open>user\<close>
  property is falsy) the request is answered by a redirect to \<open>/login\<close>; no
  collaborator is called, and the world and the session are as before. When the session
  holds a user the outcome is the handler's own.
\<close>

theorem requireAuth_guards_client_routes:
  "(\<not> truthy (sess_user s) \<longrightarrow>
      app E (GetClients p) s w =
        \<lparr>out_response = Redirect (js ''/login''), out_session = s, out_world = w,
         out_trace = []\<rparr> \<and>
      app E GetClientsNew s w =
        \<lparr>out_response = Redirect (js ''/login''), out_session = s, out_world = w,
         out_trace = []\<rparr> \<and>
      app E (PostClients f) s w =
        \<lparr>out_response = Redirect (js ''/login''), out_session = s, out_world = w,
         out_trace = []\<rparr> \<and>
      app E (GetClientEdit ident) s w =
        \<lparr>out_response = Redirect (js ''/login''), out_session = s, out_world = w,
         out_trace = []\<rparr> \<and>
      app E (PutClient ident f) s w =
        \<lparr>out_response = Redirect (js ''/login''), out_session = s, out_world = w,
         out_trace = []\<rparr> \<and>
      app E (DeleteClient ident) s w =
        \<lparr>out_response = Redirect (js ''/login''), out_session = s, out_world = w,
         out_trace = []\<rparr>) \<and>
   (truthy (sess_user s) \<longrightarrow>
      app E (GetClients p) s w = clients_index E p s w \<and>
      app E GetClientsNew s w = clients_new E s w \<and>
      app E (PostClients f) s w = clients_create E f s w \<and>
      app E (GetClientEdit ident) s w = clients_edit E ident s w \<and>
      app E (PutClient ident f) s w = clients_update E ident f s w \<and>
      app E (DeleteClient ident) s w = clients_delete E ident s w)"
  by (simp add: guarded_def requireAuth_def)

theorem requireAuth_guards_client_routes_witness:
  "\<not> truthy (sess_user fresh_session) \<and>
   app empty_env (GetClients no_params) fresh_session 0 =
     \<lparr>out_response = Redirect (js ''/login''), out_session = fresh_session, out_world = 0,
      out_trace = []\<rparr> \<and>
   app empty_env (DeleteClient (js ''7'')) fresh_session 0 =
     \<lparr>out_response = Redirect (js ''/login''), out_session = fresh_session, out_world = 0,
      out_trace = []\<rparr> \<and>
   truthy (sess_user ann_session) \<and>
   app empty_env (GetClients no_params) ann_session 0 =
     clients_index empty_env no_params ann_session 0 \<and>
   out_trace (app empty_env (GetClients no_params) ann_session 0) =
     [DbSelect (list_query no_params), DbSelect statuses_query]"
proof -
  have anon: "\<not> truthy (sess_user fresh_session)"
    by (simp add: fresh_session_def)
  have auth: "truthy (sess_user ann_session)"
    by (simp add: ann_session_def session_user_def)
  have tr: "out_trace (clients_index empty_env no_params ann_session 0) =
     [DbSelect (list_query no_params), DbSelect statuses_query]"
    by (simp add: clients_index_def empty_env_def stub_env_def)
  from anon auth tr
    requireAuth_guards_client_routes [of fresh_session empty_env no_params 0 jane_form "js ''7''"]
    requireAuth_guards_client_routes [of ann_session empty_env no_params 0 jane_form "js ''7''"]
  show ?thesis
    by simp
qed

section \<open>Sorting of the listing\<close>

lemma q_order_list_query:
  "q_order (list_query p) =
     (case sort_by p of
        None \<Rightarrow> [(js ''id'', True)]
      | Some key \<Rightarrow>
          if key = [] then [(js ''id'', True)]
          else if key = js ''status''
          then [(js ''client_status(name)'', sort_order p \<noteq> Some (js ''desc''))]
          else [(key, sort_order p \<noteq> Some (js ''desc''))])"
  by (simp add: list_query_def Let_def select_from_def ilike_def eq_col_def order_by_def
      split: option.splits)

text \<open>
  A sort key given as the empty string (\<open>?sort_by=\<close>) is present in the request,
  and it is not \<open>status\<close>; yet the listing is not ordered by the column it names: the
  test \<open>if (sort_by)\<close> sends it to the default branch, and the order is by \<open>id\<close>,
  ascending.
\<close>

theorem empty_sort_key_counterexample:
  "sort_by (no_params\<lparr>sort_by := Some []\<rparr>) = Some [] \<and>
   q_order (list_query (no_params\<lparr>sort_by := Some []\<rparr>)) = [(js ''id'', True)] \<and>
   q_order (list_query (no_params\<lparr>sort_by := Some []\<rparr>)) \<noteq> [([], True)]"
  by (simp add: q_order_list_query no_params_def js_def)

text \<open>
  C2, amended. If the sort key is \<open>status\<close>, the listing is ordered by the name of the
  joined status, \<open>client_status(name)\<close>, not by the foreign-key column \<open>status_id\<close>.
  If any other sort key that is not the empty string is supplied, the listing is ordered
  by the column of that name. If no sort key is supplied, or the sort key is the empty
  string, the listing is ordered by \<open>id\<close>, ascending.
\<close>

theorem sort_key_translation:
  "(sort_by p = Some (js ''status'') \<longrightarrow>
      q_order (list_query p) = [(js ''client_status(name)'', sort_order p \<noteq> Some (js ''desc''))] \<and>
      js ''client_status(name)'' \<noteq> js ''status_id'') \<and>
   (sort_by p = Some key \<and> key \<noteq> [] \<and> key \<noteq> js ''status'' \<longrightarrow>
      q_order (list_query p) = [(key, sort_order p \<noteq> Some (js ''desc''))]) \<and>
   (sort_by p = None \<or> sort_by p = Some [] \<longrightarrow>
      q_order (list_query p) = [(js ''id'', True)])"
  by (auto simp add: q_order_list_query js_def)

theorem sort_key_translation_witness:
  "q_order (list_query (no_params\<lparr>sort_by := Some (js ''status''), sort_order := Some (js ''desc'')\<rparr>)) =
     [(js ''client_status(name)'', False)] \<and>
   q_order (list_query (no_params\<lparr>sort_by := Some (js ''full_name'')\<rparr>)) =
     [(js ''full_name'', True)] \<and>
   q_order (list_query no_params) = [(js ''id'', True)]"
  using
    sort_key_translation [of "no_params\<lparr>sort_by := Some (js ''status''), sort_order := Some (js ''desc'')\<rparr>" "js ''x''"]
    sort_key_translation [of "no_params\<lparr>sort_by := Some (js ''full_name'')\<rparr>" "js ''full_name''"]
    sort_key_translation [of no_params "js ''x''"]
  by (simp add: no_params_def js_def)

text \<open>
  With the empty string as sort key and the direction \<open>desc\<close> the order is ascending:
  the direction is read only under \<open>if (sort_by)\<close>.
\<close>

theorem empty_sort_key_desc_counterexample:
  "sort_by (no_params\<lparr>sort_by := Some [], sort_order := Some (js ''desc'')\<rparr>) = Some [] \<and>
   sort_order (no_params\<lparr>sort_by := Some [], sort_order := Some (js ''desc'')\<rparr>) = Some (js ''desc'') \<and>
   map snd (q_order (list_query (no_params\<lparr>sort_by := Some [], sort_order := Some (js ''desc'')\<rparr>))) = [True]"
  by (simp add: q_order_list_query no_params_def js_def)

text \<open>
  C6, amended. For every listing request whose sort key is supplied and is not the empty
  string, the order is descending exactly when the direction parameter is the string
  \<open>desc\<close>; every other direction, an absent one included, gives ascending order.
\<close>

theorem sort_direction:
  "sort_by p = Some key \<Longrightarrow> key \<noteq> [] \<Longrightarrow>
   map snd (q_order (list_query p)) = [sort_order p \<noteq> Some (js ''desc'')]"
  by (simp add: q_order_list_query)

theorem sort_direction_witness:
  "map snd (q_order (list_query (no_params\<lparr>sort_by := Some (js ''phone_number''), sort_order := Some (js ''desc'')\<rparr>))) = [False] \<and>
   map snd (q_order (list_query (no_params\<lparr>sort_by := Some (js ''phone_number''), sort_order := Some (js ''DESC'')\<rparr>))) = [True] \<and>
   map snd (q_order (list_query (no_params\<lparr>sort_by := Some (js ''phone_number'')\<rparr>))) = [True]"
  using
    sort_direction [of "no_params\<lparr>sort_by := Some (js ''phone_number''), sort_order := Some (js ''desc'')\<rparr>" "js ''phone_number''"]
    sort_direction [of "no_params\<lparr>sort_by := Some (js ''phone_number''), sort_order := Some (js ''DESC'')\<rparr>" "js ''phone_number''"]
    sort_direction [of "no_params\<lparr>sort_by := Some (js ''phone_number'')\<rparr>" "js ''phone_number''"]
  by (simp add: no_params_def js_def)

section \<open>Normalisation of the status reference\<close>

text \<open>
  C3. The row that create and update hand to the store carries \<open>null\<close> as status
  reference when the form's \<open>status_id\<close> is absent or the empty string, and the given
  string otherwise; it never carries the empty string. Create is exactly the store's
  insert of that row into \<open>clients\<close>, update exactly the store's update of the rows
  whose \<open>id\<close> equals the route parameter with that row: the world afterwards is the one
  the store returns, the answer is the redirect to \<open>/clients\<close> or the store's error
  message, and nothing else happens. Behind the guard, the two routes are these handlers.
\<close>

theorem status_reference_normalised:
  "get_prop (client_row f) (js ''status_id'') =
     (case status_id f of None \<Rightarrow> JNull | Some st \<Rightarrow> if st = [] then JNull else JStr st) \<and>
   get_prop (client_row f) (js ''status_id'') \<noteq> JStr [] \<and>
   clients_create E f s w =
     \<lparr>out_response =
        (case fst (db_mutate E (Insert (js ''clients'') [client_row f]) w) of
           Some e \<Rightarrow> Send 200 (message e)
         | None \<Rightarrow> Redirect (js ''/clients'')),
      out_session = s,
      out_world = snd (db_mutate E (Insert (js ''clients'') [client_row f]) w),
      out_trace = [DbMutate (Insert (js ''clients'') [client_row f])]\<rparr> \<and>
   clients_update E ident f s w =
     \<lparr>out_response =
        (case fst (db_mutate E
                     (Update (js ''clients'') (client_row f) [Eq (js ''id'') (JStr ident)]) w) of
           Some e \<Rightarrow> Send 200 (message e)
         | None \<Rightarrow> Redirect (js ''/clients'')),
      out_session = s,
      out_world =
        snd (db_mutate E (Update (js ''clients'') (client_row f) [Eq (js ''id'') (JStr ident)]) w),
      out_trace =
        [DbMutate (Update (js ''clients'') (client_row f) [Eq (js ''id'') (JStr ident)])]\<rparr> \<and>
   (truthy (sess_user s) \<longrightarrow>
      app E (PostClients f) s w = clients_create E f s w \<and>
      app E (PutClient ident f) s w = clients_update E ident f s w)"
proof -
  have a: "get_prop (client_row f) (js ''status_id'') =
     (case status_id f of None \<Rightarrow> JNull | Some st \<Rightarrow> if st = [] then JNull else JStr st)"
    by (simp add: get_prop_def client_row_def js_def or_null_def param_def split: option.splits)
  have b: "get_prop (client_row f) (js ''status_id'') \<noteq> JStr []"
    unfolding a by (simp split: option.splits)
  have c: "clients_create E f s w =
     \<lparr>out_response =
        (case fst (db_mutate E (Insert (js ''clients'') [client_row f]) w) of
           Some e \<Rightarrow> Send 200 (message e)
         | None \<Rightarrow> Redirect (js ''/clients'')),
      out_session = s,
      out_world = snd (db_mutate E (Insert (js ''clients'') [client_row f]) w),
      out_trace = [DbMutate (Insert (js ''clients'') [client_row f])]\<rparr>"
    by (simp add: clients_create_def Let_def split: prod.splits option.splits)
  have d: "clients_update E ident f s w =
     \<lparr>out_response =
        (case fst (db_mutate E
                     (Update (js ''clients'') (client_row f) [Eq (js ''id'') (JStr ident)]) w) of
           Some e \<Rightarrow> Send 200 (message e)
         | None \<Rightarrow> Redirect (js ''/clients'')),
      out_session = s,
      out_world =
        snd (db_mutate E (Update (js ''clients'') (client_row f) [Eq (js ''id'') (JStr ident)]) w),
      out_trace =
        [DbMutate (Update (js ''clients'') (client_row f) [Eq (js ''id'') (JStr ident)])]\<rparr>"
    by (simp add: clients_update_def Let_def split: prod.splits option.splits)
  have e: "truthy (sess_user s) \<longrightarrow>
      app E (PostClients f) s w = clients_create E f s w \<and>
      app E (PutClient ident f) s w = clients_update E ident f s w"
    by (simp add: guarded_def requireAuth_def)
  from a b c d e show ?thesis
    by (intro conjI)
qed

theorem status_reference_normalised_witness:
  "truthy (sess_user ann_session) \<and>
   app appending_env (PostClients jane_form) ann_session [] =
     \<lparr>out_response = Redirect (js ''/clients''), out_session = ann_session,
      out_world =
        [[(js ''full_name'', JStr (js ''Jane Doe'')), (js ''phone_number'', JStr (js ''555-1000'')),
          (js ''status_id'', JNull)]],
      out_trace = [DbMutate (Insert (js ''clients'') [client_row jane_form])]\<rparr> \<and>
   out_world (app appending_env (PostClients (jane_form\<lparr>status_id := Some []\<rparr>)) ann_session []) =
     [[(js ''full_name'', JStr (js ''Jane Doe'')), (js ''phone_number'', JStr (js ''555-1000'')),
       (js ''status_id'', JNull)]] \<and>
   out_world (app appending_env (PostClients (jane_form\<lparr>status_id := Some (js ''3'')\<rparr>)) ann_session []) =
     [[(js ''full_name'', JStr (js ''Jane Doe'')), (js ''phone_number'', JStr (js ''555-1000'')),
       (js ''status_id'', JStr (js ''3''))]] \<and>
   app refusing_env (PutClient (js ''7'') jane_form) ann_session 0 =
     \<lparr>out_response = Send 200 (js ''upstream request timeout''), out_session = ann_session,
      out_world = 1,
      out_trace = [DbMutate (Update (js ''clients'') (client_row jane_form)
                     [Eq (js ''id'') (JStr (js ''7''))])]\<rparr>"
proof -
  have auth: "truthy (sess_user ann_session)"
    by (simp add: ann_session_def session_user_def)
  have r1: "client_row jane_form =
        [(js ''full_name'', JStr (js ''Jane Doe'')), (js ''phone_number'', JStr (js ''555-1000'')),
          (js ''status_id'', JNull)]"
    by (simp add: client_row_def jane_form_def param_def or_null_def)
  have r2: "client_row (jane_form\<lparr>status_id := Some []\<rparr>) =
        [(js ''full_name'', JStr (js ''Jane Doe'')), (js ''phone_number'', JStr (js ''555-1000'')),
          (js ''status_id'', JNull)]"
    by (simp add: client_row_def jane_form_def param_def or_null_def)
  have r3: "client_row (jane_form\<lparr>status_id := Some (js ''3'')\<rparr>) =
        [(js ''full_name'', JStr (js ''Jane Doe'')), (js ''phone_number'', JStr (js ''555-1000'')),
          (js ''status_id'', JStr (js ''3''))]"
    by (simp add: client_row_def jane_form_def param_def or_null_def js_def)
  have m1: "\<And>rs. db_mutate appending_env (Insert (js ''clients'') rs) [] = (None, rs)"
    by (simp add: appending_env_def)
  have m2: "\<And>m. db_mutate refusing_env m 0 = (Some timeout_error, 1)"
    by (simp add: refusing_env_def stub_env_def)
  have msg: "message timeout_error = js ''upstream request timeout''"
    by (simp add: timeout_error_def)
  from auth
    status_reference_normalised [of jane_form appending_env ann_session "[]" "js ''7''"]
    status_reference_normalised
      [of "jane_form\<lparr>status_id := Some []\<rparr>" appending_env ann_session "[]" "js ''7''"]
    status_reference_normalised
      [of "jane_form\<lparr>status_id := Some (js ''3'')\<rparr>" appending_env ann_session "[]" "js ''7''"]
    status_reference_normalised [of jane_form refusing_env ann_session 0 "js ''7''"]
  show ?thesis
    by (simp add: m1 m2 msg r1 r2 r3)
qed

section \<open>Blank search text and the status sentinel\<close>

lemma trim_blank: "\<forall>c\<in>set s. is_js_whitespace c \<Longrightarrow> trim s = []"
proof -
  assume "\<forall>c\<in>set s. is_js_whitespace c"
  then have "dropWhile is_js_whitespace s = []"
    by simp
  then show ?thesis
    by (simp only: trim_def rev.simps dropWhile.simps)
qed

lemma listing_depends_on_query:
  assumes "list_query p = list_query p'"
  shows "out_trace (clients_index E p s w) = out_trace (clients_index E p' s w) \<and>
         out_world (clients_index E p s w) = out_world (clients_index E p' s w) \<and>
         out_session (clients_index E p s w) = out_session (clients_index E p' s w) \<and>
         without_filters (out_response (clients_index E p s w)) =
           without_filters (out_response (clients_index E p' s w))"
  using assms
  by (simp add: clients_index_def Let_def js_def split: prod.splits option.splits)

lemma guarded_cong_obs:
  "guarded requireAuth h s w = (if truthy (sess_user s) then h s w else
     \<lparr>out_response = Redirect (js ''/login''), out_session = s, out_world = w, out_trace = []\<rparr>)"
  by (simp add: guarded_def requireAuth_def)

text \<open>
  C4. A search parameter that is the empty string or consists of whitespace only composes
  the same query as an omitted one, and the status parameter \<open>all\<close> composes the same
  query as an omitted one. So, against every store and for every session, the two
  requests make the same store calls, leave the same world and answer with the same
  response up to the \<open>filters\<close> local, which echoes the parameters as they were sent.
\<close>

theorem blank_search_and_all_status_are_omitted:
  assumes "\<forall>c\<in>set blank. is_js_whitespace c"
  shows
    "list_query (p\<lparr>search := Some blank\<rparr>) = list_query (p\<lparr>search := None\<rparr>) \<and>
     list_query (p\<lparr>status := Some (js ''all'')\<rparr>) = list_query (p\<lparr>status := None\<rparr>) \<and>
     out_trace (app E (GetClients (p\<lparr>search := Some blank\<rparr>)) s w) =
       out_trace (app E (GetClients (p\<lparr>search := None\<rparr>)) s w) \<and>
     out_world (app E (GetClients (p\<lparr>search := Some blank\<rparr>)) s w) =
       out_world (app E (GetClients (p\<lparr>search := None\<rparr>)) s w) \<and>
     without_filters (out_response (app E (GetClients (p\<lparr>search := Some blank\<rparr>)) s w)) =
       without_filters (out_response (app E (GetClients (p\<lparr>search := None\<rparr>)) s w)) \<and>
     out_trace (app E (GetClients (p\<lparr>status := Some (js ''all'')\<rparr>)) s w) =
       out_trace (app E (GetClients (p\<lparr>status := None\<rparr>)) s w) \<and>
     out_world (app E (GetClients (p\<lparr>status := Some (js ''all'')\<rparr>)) s w) =
       out_world (app E (GetClients (p\<lparr>status := None\<rparr>)) s w) \<and>
     without_filters (out_response (app E (GetClients (p\<lparr>status := Some (js ''all'')\<rparr>)) s w)) =
       without_filters (out_response (app E (GetClients (p\<lparr>status := None\<rparr>)) s w))"
proof -
  have q1: "list_query (p\<lparr>search := Some blank\<rparr>) = list_query (p\<lparr>search := None\<rparr>)"
    using assms by (simp add: list_query_def trim_blank)
  have q2: "list_query (p\<lparr>status := Some (js ''all'')\<rparr>) = list_query (p\<lparr>status := None\<rparr>)"
    by (simp add: list_query_def)
  note l1 = listing_depends_on_query [OF q1, of E s w]
  note l2 = listing_depends_on_query [OF q2, of E s w]
  show ?thesis
    using q1 q2 l1 l2 by (simp add: guarded_cong_obs)
qed

theorem blank_search_and_all_status_are_omitted_witness:
  "list_all is_js_whitespace (js ''  '') \<and>
   list_query (no_params\<lparr>search := Some (js ''  '')\<rparr>) = list_query no_params \<and>
   list_query (no_params\<lparr>status := Some (js ''all'')\<rparr>) = list_query no_params \<and>
   without_filters
     (out_response (app ann_env (GetClients (no_params\<lparr>search := Some (js ''  '')\<rparr>)) ann_session 0)) =
   without_filters (out_response (app ann_env (GetClients no_params) ann_session 0))"
proof -
  have blank: "\<forall>c\<in>set (js ''  ''). is_js_whitespace c"
    by (simp add: js_def is_js_whitespace_def)
  have a: "no_params\<lparr>search := None\<rparr> = no_params"
    by (simp add: no_params_def)
  have b: "no_params\<lparr>status := None\<rparr> = no_params"
    by (simp add: no_params_def)
  have blank_list: "list_all is_js_whitespace (js ''  '')"
    using blank by (simp only: list_all_iff)
  from blank_search_and_all_status_are_omitted [OF blank, of no_params ann_env ann_session 0]
    blank_list
  show ?thesis
    unfolding a b by blast
qed

section \<open>The status read of the listing\<close>

text \<open>
  When the main query of the listing fails, the handler sends the error's message and
  returns: the status collection is not read.
\<close>

theorem failed_listing_skips_status_read_counterexample:
  "truthy (sess_user ann_session) \<and>
   app failing_reads_env (GetClients no_params) ann_session 0 =
     \<lparr>out_response = Send 200 (js ''upstream request timeout''), out_session = ann_session,
      out_world = 1, out_trace = [DbSelect (list_query no_params)]\<rparr> \<and>
   DbSelect statuses_query \<notin> set (out_trace (app failing_reads_env (GetClients no_params) ann_session 0))"
  by (simp add: guarded_def requireAuth_def ann_session_def session_user_def clients_index_def
      failing_reads_env_def stub_env_def timeout_error_def list_query_def no_params_def
      statuses_query_def select_from_def order_by_def js_def)

text \<open>
  C7, amended. For every listing request that passes the guard, whatever its filters:
  if the main query fails, its message is sent and the status collection is not read;
  if the main query succeeds, the status collection is read next, without filters and
  ordered by \<open>id\<close> ascending, a failure of that read is reported by its own message,
  and its rows are handed to the view as \<open>statuses\<close>.
\<close>

theorem status_read_after_successful_listing:
  "(truthy (sess_user s) \<and> db_select E (list_query p) w = ((clients, Some e), w1) \<longrightarrow>
      app E (GetClients p) s w =
        \<lparr>out_response = Send 200 (message e), out_session = s, out_world = w1,
         out_trace = [DbSelect (list_query p)]\<rparr>) \<and>
   (truthy (sess_user s) \<and> db_select E (list_query p) w = ((clients, None), w1) \<and>
    db_select E statuses_query w1 = ((statuses, statusError), w2) \<longrightarrow>
      out_trace (app E (GetClients p) s w) = [DbSelect (list_query p), DbSelect statuses_query] \<and>
      out_world (app E (GetClients p) s w) = w2 \<and>
      (case statusError of
         Some e' \<Rightarrow> out_response (app E (GetClients p) s w) = Send 200 (message e')
       | None \<Rightarrow>
           get_prop (render_locals (out_response (app E (GetClients p) s w))) (js ''statuses'') =
             rows_val statuses)) \<and>
   q_table statuses_query = js ''client_status'' \<and>
   q_filters statuses_query = [] \<and>
   q_order statuses_query = [(js ''id'', True)]"
  by (simp add: guarded_def requireAuth_def clients_index_def statuses_query_def select_from_def
      order_by_def get_prop_def js_def split: option.splits)

theorem status_read_after_successful_listing_witness:
  "app failing_reads_env (GetClients no_params) ann_session 0 =
     \<lparr>out_response = Send 200 (message timeout_error), out_session = ann_session, out_world = 1,
      out_trace = [DbSelect (list_query no_params)]\<rparr> \<and>
   out_trace (app ann_env (GetClients no_params) ann_session 0) =
     [DbSelect (list_query no_params), DbSelect statuses_query] \<and>
   out_world (app ann_env (GetClients no_params) ann_session 0) = 2 \<and>
   get_prop (render_locals (out_response (app ann_env (GetClients no_params) ann_session 0)))
     (js ''statuses'') = rows_val (Some [ann_row])"
proof -
  have a: "truthy (sess_user ann_session)"
    by (simp add: ann_session_def session_user_def)
  have b: "db_select ann_env (list_query no_params) 0 = ((Some [ann_row], None), 1)"
    by (simp add: ann_env_def stub_env_def)
  have c: "db_select ann_env statuses_query 1 = ((Some [ann_row], None), 2)"
    by (simp add: ann_env_def stub_env_def)
  have d: "db_select failing_reads_env (list_query no_params) 0 = ((None, Some timeout_error), 1)"
    by (simp add: failing_reads_env_def stub_env_def)
  from a b c d
    status_read_after_successful_listing
      [of ann_session ann_env no_params 0 "Some [ann_row]" timeout_error 1 "Some [ann_row]" None 2]
    status_read_after_successful_listing
      [of ann_session failing_reads_env no_params 0 None timeout_error 1 None None 2]
  show ?thesis
    by simp
qed

section \<open>Login\<close>

text \<open>
  C5. The login lookup selects from \<open>users\<close> by equality on \<open>email\<close>. If it succeeds
  and returns no row (\<open>null\<close> or an empty list), the answer is status 400 with the
  not-found message. If it returns a user and the password comparison resolves to
  \<open>false\<close>, the answer is status 401 with the wrong-password message, a different
  response. In both cases the session is the one the request came with, so an anonymous
  session stays anonymous.
\<close>

theorem login_failures:
  "(db_select E (login_query f) w = ((users, None), w1) \<and> (users = None \<or> users = Some []) \<longrightarrow>
      app E (PostLogin f) s w =
        \<lparr>out_response = Send 400 msg_user_not_found, out_session = s, out_world = w1,
         out_trace = [DbSelect (login_query f)]\<rparr>) \<and>
   (db_select E (login_query f) w = ((Some (user # others), None), w1) \<and>
    bcrypt_compare E (param (password f)) (get_prop user (js ''password_hash'')) w1 = (Inr False, w2) \<longrightarrow>
      app E (PostLogin f) s w =
        \<lparr>out_response = Send 401 msg_wrong_password, out_session = s, out_world = w2,
         out_trace = [DbSelect (login_query f),
                      BcryptCompare (param (password f)) (get_prop user (js ''password_hash''))]\<rparr>) \<and>
   Send 400 msg_user_not_found \<noteq> Send 401 msg_wrong_password \<and>
   q_table (login_query f) = js ''users'' \<and>
   q_filters (login_query f) = [Eq (js ''email'') (param (email f))]"
  by (auto simp add: post_login_def login_query_def limit_rows_def eq_col_def select_from_def)

theorem login_failures_witness:
  "app empty_env (PostLogin ann_form) fresh_session 0 =
     \<lparr>out_response = Send 400 msg_user_not_found, out_session = fresh_session, out_world = 1,
      out_trace = [DbSelect (login_query ann_form)]\<rparr> \<and>
   app ann_env (PostLogin ann_form) fresh_session 0 =
     \<lparr>out_response = Send 401 msg_wrong_password, out_session = fresh_session, out_world = 2,
      out_trace = [DbSelect (login_query ann_form),
                   BcryptCompare (JStr (js ''secret'')) (JStr (js ''$2b$10$abcdefghijklmnopqrstuv''))]\<rparr> \<and>
   sess_user fresh_session = JUndefined"
proof -
  have a: "db_select empty_env (login_query ann_form) 0 = ((Some [], None), 1) \<and>
           (Some [] = None \<or> Some [] = Some ([] :: row list))"
    by (simp add: empty_env_def stub_env_def)
  have b: "db_select ann_env (login_query ann_form) 0 = ((Some (ann_row # []), None), 1) \<and>
      bcrypt_compare ann_env (param (password ann_form)) (get_prop ann_row (js ''password_hash'')) 1
        = (Inr False, 2)"
    by (simp add: ann_env_def stub_env_def)
  have c: "param (password ann_form) = JStr (js ''secret'')"
    by (simp add: param_def ann_form_def)
  have d: "get_prop ann_row (js ''password_hash'') = JStr (js ''$2b$10$abcdefghijklmnopqrstuv'')"
    by (simp add: get_prop_def ann_row_def js_def)
  have e: "sess_user fresh_session = JUndefined"
    by (simp add: fresh_session_def)
  from a b e
    login_failures [of empty_env ann_form 0 "Some []" 1 fresh_session]
    login_failures [of ann_env ann_form 0 _ 1 fresh_session ann_row "[]" 2]
  show ?thesis
    unfolding c d by blast
qed

section \<open>Registration\<close>

text \<open>
  Registration asks the store once, with one \<open>or\<close> filter over email and username.
  If the reply holds a row, the answer is status 400 with the conflict message; the
  lookup is the only effect, and no insert is made. If the reply is an empty list, the
  password is hashed with cost factor 10 and, when the hashing resolves, the row of
  username, email and hash is inserted into \<open>users\<close>: a redirect to \<open>/login\<close> when the
  store accepts it, status 500 when it does not.
\<close>

lemma registration_conflict_check:
  "q_table (existing_user_query f) = js ''users'' \<and>
   q_filters (existing_user_query f) =
     [Or (js ''email.eq.'' @ template (email f) @ js '',username.eq.'' @ template (username f))] \<and>
   (db_select E (existing_user_query f) w = ((Some (u # us), err), w1) \<longrightarrow>
      app E (PostRegister f) s w =
        \<lparr>out_response = Send 400 msg_user_exists, out_session = s, out_world = w1,
         out_trace = [DbSelect (existing_user_query f)]\<rparr> \<and>
      \<not> list_ex is_insert (out_trace (app E (PostRegister f) s w))) \<and>
   (db_select E (existing_user_query f) w = ((Some [], err), w1) \<and>
    bcrypt_hash E (param (password f)) 10 w1 = (Inr h, w2) \<and>
    db_mutate E (Insert (js ''users'') [user_row f h]) w2 = (r, w3) \<longrightarrow>
      app E (PostRegister f) s w =
        \<lparr>out_response =
           (case r of None \<Rightarrow> Redirect (js ''/login'') | Some e \<Rightarrow> Send 500 msg_register_failed),
         out_session = s, out_world = w3,
         out_trace = [DbSelect (existing_user_query f), BcryptHash (param (password f)) 10,
                      DbMutate (Insert (js ''users'') [user_row f h])] @
                     (case r of None \<Rightarrow> [] | Some e \<Rightarrow> [ConsoleError e])\<rparr>)"
  by (simp add: post_register_def existing_user_query_def or_filter_def select_from_def
      split: option.splits)

lemma registration_conflict_check_example:
  "app ann_env (PostRegister ann_form) fresh_session 0 =
     \<lparr>out_response = Send 400 msg_user_exists, out_session = fresh_session, out_world = 1,
      out_trace = [DbSelect (existing_user_query ann_form)]\<rparr> \<and>
   app empty_env (PostRegister ann_form) fresh_session 0 =
     \<lparr>out_response = Redirect (js ''/login''), out_session = fresh_session, out_world = 3,
      out_trace = [DbSelect (existing_user_query ann_form), BcryptHash (JStr (js ''secret'')) 10,
                   DbMutate (Insert (js ''users'')
                     [user_row ann_form (js ''$2b$10$zyxwvutsrqponmlkjihgfe'')])]\<rparr>"
proof -
  have a: "db_select ann_env (existing_user_query ann_form) 0 = ((Some (ann_row # []), None), 1)"
    by (simp add: ann_env_def stub_env_def)
  have b: "db_select empty_env (existing_user_query ann_form) 0 = ((Some [], None), 1) \<and>
    bcrypt_hash empty_env (param (password ann_form)) 10 1 = (Inr (js ''$2b$10$zyxwvutsrqponmlkjihgfe''), 2) \<and>
    db_mutate empty_env (Insert (js ''users'') [user_row ann_form (js ''$2b$10$zyxwvutsrqponmlkjihgfe'')]) 2 = (None, 3)"
    by (simp add: empty_env_def stub_env_def)
  have c: "param (password ann_form) = JStr (js ''secret'')"
    by (simp add: param_def ann_form_def)
  from a b
    registration_conflict_check [of ann_form ann_env 0 ann_row "[]" None 1 fresh_session]
    registration_conflict_check [of ann_form empty_env 0 ann_row "[]" None 1 fresh_session
      "js ''$2b$10$zyxwvutsrqponmlkjihgfe''" 2 None 3]
  show ?thesis
    unfolding c by simp
qed

text \<open>
  C8. A registration is to be rejected when a user with the same email or the same
  username exists. The handler decides this from the \<open>data\<close> of the lookup alone and
  does not read its \<open>error\<close>, which the insert of the same handler and the lookup of
  the login both do (\<open>if (error) throw error\<close>). So at a store that holds Ann's account
  and whose lookup times out, registering Ann's email and username again is not
  rejected: the password is hashed, a second row with the same email and username is
  inserted, and the answer is the redirect to \<open>/login\<close>.
\<close>

theorem duplicate_registered_when_lookup_fails:
  "get_prop ann_row (js ''email'') = param (email ann_form) \<and>
   get_prop ann_row (js ''username'') = param (username ann_form) \<and>
   app appending_env (PostRegister ann_form) fresh_session [ann_row] =
     \<lparr>out_response = Redirect (js ''/login''), out_session = fresh_session,
      out_world = [ann_row, user_row ann_form (js ''$2b$10$zyxwvutsrqponmlkjihgfe'')],
      out_trace = [DbSelect (existing_user_query ann_form), BcryptHash (JStr (js ''secret'')) 10,
                   DbMutate (Insert (js ''users'')
                     [user_row ann_form (js ''$2b$10$zyxwvutsrqponmlkjihgfe'')])]\<rparr> \<and>
   list_ex is_insert (out_trace (app appending_env (PostRegister ann_form) fresh_session [ann_row]))"
  by (simp add: post_register_def appending_env_def get_prop_def ann_row_def ann_form_def
      param_def js_def)



section \<open>The session holds the projection only\<close>

lemma guarded_session:
  assumes "\<And>s w. out_session (h s w) = s"
  shows "out_session (guarded requireAuth h s w) = s"
  using assms by (simp add: guarded_def requireAuth_def)

lemma clients_handlers_keep_session:
  "out_session (clients_index E p s w) = s"
  "out_session (clients_new E s w) = s"
  "out_session (clients_create E f s w) = s"
  "out_session (clients_edit E ident s w) = s"
  "out_session (clients_update E ident f s w) = s"
  "out_session (clients_delete E ident s w) = s"
  by (simp_all add: clients_index_def clients_new_def clients_create_def clients_edit_def
      clients_update_def clients_delete_def Let_def split: prod.splits option.splits)

lemma post_register_keeps_session: "out_session (post_register E f s w) = s"
  by (simp add: post_register_def Let_def split: prod.splits option.splits sum.splits)

lemma post_login_session:
  "out_session (post_login E f s w) = s \<or>
   (\<exists>user. out_session (post_login E f s w) = s\<lparr>sess_user := session_user user\<rparr>)"
  by (auto simp add: post_login_def Let_def split: prod.splits option.splits sum.splits list.splits)

lemma app_session:
  "out_session (app E req s w) = s \<or> out_session (app E req s w) = fresh_session \<or>
   (\<exists>user. out_session (app E req s w) = s\<lparr>sess_user := session_user user\<rparr>)"
proof (cases req)
  case (PostLogin f)
  then show ?thesis using post_login_session [of E f s w] by auto
qed (simp_all add: page_def get_logout_def post_register_keeps_session guarded_session
      clients_handlers_keep_session)

lemma session_user_keys:
  "object_keys (session_user user) = [js ''id'', js ''username'', js ''email'']"
  by (simp add: session_user_def)

lemma reachable_projection:
  "reachable E s \<Longrightarrow>
   sess_user s = JUndefined \<or> object_keys (sess_user s) = [js ''id'', js ''username'', js ''email'']"
proof (induction rule: reachable.induct)
  case reachable_fresh
  then show ?case by (simp add: fresh_session_def)
next
  case (reachable_step s req w)
  from app_session [of E req s w] reachable_step.IH show ?case
    by (auto simp add: fresh_session_def session_user_keys)
qed

lemma login_success:
  assumes "out_response (post_login E f s w) = Redirect (js ''/'')"
  shows "\<exists>user others w1.
           db_select E (login_query f) w = ((Some (user # others), None), w1) \<and>
           sess_user (out_session (post_login E f s w)) =
             JObj [(js ''id'', get_prop user (js ''id'')),
                   (js ''username'', get_prop user (js ''username'')),
                   (js ''email'', get_prop user (js ''email''))]"
  using assms
  by (auto simp add: post_login_def Let_def session_user_def
      split: prod.splits option.splits sum.splits list.splits if_splits)

text \<open>
  C9. After a successful login (the redirect to \<open>/\<close>) the session's user is the object
  of exactly the properties \<open>id\<close>, \<open>username\<close> and \<open>email\<close>, read from the first row
  of the lookup. In every session state reachable from a new session by any requests,
  against any world, the user is unset or an object of exactly these three properties;
  none is named \<open>password_hash\<close>.
\<close>

theorem session_holds_projection_only:
  "(out_response (app E (PostLogin f) s w) = Redirect (js ''/'') \<longrightarrow>
      (\<exists>user others w1.
         db_select E (login_query f) w = ((Some (user # others), None), w1) \<and>
         sess_user (out_session (app E (PostLogin f) s w)) =
           JObj [(js ''id'', get_prop user (js ''id'')),
                 (js ''username'', get_prop user (js ''username'')),
                 (js ''email'', get_prop user (js ''email''))]) \<and>
      object_keys (sess_user (out_session (app E (PostLogin f) s w))) =
        [js ''id'', js ''username'', js ''email'']) \<and>
   (reachable E s' \<longrightarrow>
      (sess_user s' = JUndefined \<or>
       object_keys (sess_user s') = [js ''id'', js ''username'', js ''email'']) \<and>
      js ''password_hash'' \<notin> set (object_keys (sess_user s')))"
proof -
  have a: "out_response (app E (PostLogin f) s w) = Redirect (js ''/'') \<longrightarrow>
      (\<exists>user others w1.
         db_select E (login_query f) w = ((Some (user # others), None), w1) \<and>
         sess_user (out_session (app E (PostLogin f) s w)) =
           JObj [(js ''id'', get_prop user (js ''id'')),
                 (js ''username'', get_prop user (js ''username'')),
                 (js ''email'', get_prop user (js ''email''))])"
    using login_success [of E f s w] by simp
  have b: "out_response (app E (PostLogin f) s w) = Redirect (js ''/'') \<longrightarrow>
      object_keys (sess_user (out_session (app E (PostLogin f) s w))) =
        [js ''id'', js ''username'', js ''email'']"
    using a by auto
  have c: "reachable E s' \<longrightarrow>
      (sess_user s' = JUndefined \<or>
       object_keys (sess_user s') = [js ''id'', js ''username'', js ''email''])"
    using reachable_projection by blast
  have d: "reachable E s' \<longrightarrow> js ''password_hash'' \<notin> set (object_keys (sess_user s'))"
  proof
    assume "reachable E s'"
    with c have "sess_user s' = JUndefined \<or>
       object_keys (sess_user s') = [js ''id'', js ''username'', js ''email'']" by simp
    then show "js ''password_hash'' \<notin> set (object_keys (sess_user s'))"
      by (auto simp add: js_def)
  qed
  from a b c d show ?thesis by blast
qed

theorem session_holds_projection_only_witness:
  "out_response (app ann_env_valid (PostLogin ann_form) fresh_session 0) = Redirect (js ''/'') \<and>
   sess_user (out_session (app ann_env_valid (PostLogin ann_form) fresh_session 0)) =
     JObj [(js ''id'', JNum 7), (js ''username'', JStr (js ''ann'')),
           (js ''email'', JStr (js ''ann@example.org''))] \<and>
   reachable ann_env_valid (out_session (app ann_env_valid (PostLogin ann_form) fresh_session 0)) \<and>
   js ''password_hash'' \<notin>
     set (object_keys (sess_user (out_session (app ann_env_valid (PostLogin ann_form) fresh_session 0))))"
proof -
  have ok: "app ann_env_valid (PostLogin ann_form) fresh_session 0 =
     \<lparr>out_response = Redirect (js ''/''),
      out_session = \<lparr>sess_user = JObj [(js ''id'', JNum 7), (js ''username'', JStr (js ''ann'')),
           (js ''email'', JStr (js ''ann@example.org''))]\<rparr>,
      out_world = 2,
      out_trace = [DbSelect (login_query ann_form),
                   BcryptCompare (JStr (js ''secret'')) (JStr (js ''$2b$10$abcdefghijklmnopqrstuv''))]\<rparr>"
    by (simp add: post_login_def ann_env_valid_def stub_env_def session_user_def get_prop_def
        ann_row_def js_def param_def ann_form_def fresh_session_def)
  have r: "reachable ann_env_valid (out_session (app ann_env_valid (PostLogin ann_form) fresh_session 0))"
    by (rule reachable_step [OF reachable_fresh])
  from ok r
    session_holds_projection_only [of ann_env_valid ann_form fresh_session 0
      "out_session (app ann_env_valid (PostLogin ann_form) fresh_session 0)"]
  show ?thesis
    by simp
qed

end
